theory Spec2Isabelle
  imports Complex_Main "HOL-Library.AList" "HOL-Library.Char_ord" "HOL-Library.List_Lexorder"
begin

section \<open>Price lookup service: \<^verbatim>\<open>agent_tools/tool_get_price_local.py\<close>\<close>

text \<open>
  The module keeps three pieces of process-wide state (\<^verbatim>\<open>_PRICE_CACHE\<close>,
  \<^verbatim>\<open>_CACHE_LOADED\<close>, and the Azure client with its enabled flag), loads five JSONL
  files into the cache, and answers point lookups from it with a fallback to Azure
  Table Storage.  The embedding below is sequential: every function takes the state
  and returns the new one; the lock \<^verbatim>\<open>_CACHE_LOCK\<close> has no counterpart.  Functions and
  globals keep their names, without the leading underscore.
\<close>

subsection \<open>Python values\<close>

text \<open>
  What \<^verbatim>\<open>json.loads\<close> returns.  A dict is an association list in insertion order
  with distinct keys; Python's \<^verbatim>\<open>None\<close> is \<open>JNull\<close>.  A float is represented by
  the rational it denotes.  Strings are byte strings in UTF-8, whose lexicographic
  order is the code point order Python compares by.
\<close>

datatype json =
    JNull
  | JBool bool
  | JInt int
  | JFloat rat
  | JStr string
  | JArr "json list"
  | JObj "(string \<times> json) list"

type_synonym pydict = "(string \<times> json) list"

text \<open>\<^verbatim>\<open>bool(x)\<close>, as used by \<^verbatim>\<open>if x:\<close>.\<close>

fun truthy :: "json \<Rightarrow> bool" where
  "truthy JNull = False"
| "truthy (JBool b) = b"
| "truthy (JInt n) = (n \<noteq> 0)"
| "truthy (JFloat r) = (r \<noteq> 0)"
| "truthy (JStr s) = (s \<noteq> [])"
| "truthy (JArr xs) = (xs \<noteq> [])"
| "truthy (JObj kvs) = (kvs \<noteq> [])"

text \<open>\<^verbatim>\<open>d.get(k)\<close>: the value, or \<^verbatim>\<open>None\<close> when the key is missing.\<close>

definition dict_get :: "pydict \<Rightarrow> string \<Rightarrow> json" where
  "dict_get d k = (case map_of d k of None \<Rightarrow> JNull | Some v \<Rightarrow> v)"

text \<open>\<^verbatim>\<open>d.update(other)\<close> for a dict \<^verbatim>\<open>other\<close>: its items are stored one by one, in order.\<close>

definition dict_update :: "('k \<times> 'v) list \<Rightarrow> ('k \<times> 'v) list \<Rightarrow> ('k \<times> 'v) list" where
  "dict_update d other = fold (\<lambda>(k, v). AList.update k v) other d"

text \<open>
  Exceptions of class \<^verbatim>\<open>Exception\<close>, with their message.  \<open>OtherException\<close> stands for
  whatever the Azure SDK raises (\<^verbatim>\<open>ResourceNotFoundError\<close>, \<^verbatim>\<open>HttpResponseError\<close>, ...).
\<close>

datatype py_exception =
    ValueError string
  | AttributeError string
  | OtherException string

subsection \<open>State and environment\<close>

text \<open>
  A line of a JSONL file, as the loop of \<^verbatim>\<open>_load_jsonl_to_cache\<close> sees it: blank
  (\<^verbatim>\<open>line.strip()\<close> is empty), rejected by \<^verbatim>\<open>json.loads\<close> with a
  \<^verbatim>\<open>JSONDecodeError\<close> (whose text is kept), or a document.  Documents have the shape of
  the data files: an optional \<^verbatim>\<open>"Meta Data"\<close> object of strings, and time series objects
  under their field names; the values stored in a series are arbitrary JSON values.
\<close>

type_synonym meta_data = "(string \<times> string) list"

record document =
  Meta_Data :: "meta_data option"
  time_series :: "(string \<times> pydict) list"

datatype line = Blank | Malformed string | Doc document

datatype cache_type = Daily | Hourly

text \<open>One entry of \<^verbatim>\<open>_PRICE_CACHE\<close>: \<^verbatim>\<open>{"daily": {}, "hourly": {}, "meta": meta}\<close>.\<close>

record symbol_data =
  daily :: pydict
  hourly :: pydict
  meta :: meta_data

text \<open>The two methods of the Azure \<^verbatim>\<open>TableClient\<close> the module calls.\<close>

record table_client =
  get_entity :: "string \<Rightarrow> string \<Rightarrow> py_exception + pydict"
  upsert_entity :: "pydict \<Rightarrow> py_exception + unit"

datatype azure_call = Get_entity string string | Upsert_entity pydict

text \<open>Records written to the logger; each constructor is one message of the source.\<close>

datatype log_record =
    WARNING_data_file_not_found string
  | WARNING_failed_to_parse_line string string
  | INFO_loading_price_data
  | INFO_loaded nat string
  | INFO_cache_loaded nat nat
  | WARNING_failed_to_save string

text \<open>
  The module's globals, together with two traces of its effects: the records logged and
  the calls made on the table client.
\<close>

record state =
  PRICE_CACHE :: "(string \<times> symbol_data) list"
  CACHE_LOADED :: bool
  TABLE_CLIENT :: "table_client option"
  AZURE_ENABLED :: bool
  logged :: "log_record list"
  azure_calls :: "azure_call list"

text \<open>
  What the module reads from outside: the files under the base directory (\<open>None\<close>
  when the path does not exist), whether \<^verbatim>\<open>datetime.strptime(date_str, fmt)\<close> accepts a
  string, \<^verbatim>\<open>tools.general_tools.get_config_value\<close>, and the clock.
\<close>

record env =
  files :: "string \<Rightarrow> line list option"
  strptime :: "string \<Rightarrow> string \<Rightarrow> bool"
  get_config_value :: "string \<Rightarrow> string option"
  utcnow_isoformat :: string

definition logger :: "log_record \<Rightarrow> state \<Rightarrow> state" where
  "logger r st = st\<lparr>logged := logged st @ [r]\<rparr>"

subsection \<open>Bulk loader\<close>

text \<open>\<^verbatim>\<open>_PRICE_CACHE[symbol][cache_type]\<close>, read and written.\<close>

fun series_of :: "cache_type \<Rightarrow> symbol_data \<Rightarrow> pydict" where
  "series_of Daily sd = daily sd"
| "series_of Hourly sd = hourly sd"

fun series_update :: "cache_type \<Rightarrow> pydict \<Rightarrow> symbol_data \<Rightarrow> symbol_data" where
  "series_update Daily series sd = sd\<lparr>daily := dict_update (daily sd) series\<rparr>"
| "series_update Hourly series sd = sd\<lparr>hourly := dict_update (hourly sd) series\<rparr>"

text \<open>
  The body of the \<^verbatim>\<open>for line in f\<close> loop, on the cache, the log and \<^verbatim>\<open>count\<close>.
  \<open>cache1\<close> is the cache after the entry has been created if it was missing, so the
  symbol is always found in it; \<open>cache2\<close> is the cache after \<^verbatim>\<open>update(series)\<close>.
\<close>

fun load_line :: "string \<Rightarrow> string \<Rightarrow> cache_type \<Rightarrow> state \<times> nat \<Rightarrow> line \<Rightarrow> state \<times> nat" where
  "load_line file_path series_key ct (st, count) Blank = (st, count)"
| "load_line file_path series_key ct (st, count) (Malformed e) =
     (logger (WARNING_failed_to_parse_line file_path e) st, count)"
| "load_line file_path series_key ct (st, count) (Doc doc) =
     (let meta = (case Meta_Data doc of None \<Rightarrow> [] | Some m \<Rightarrow> m)
      in case map_of meta ''2. Symbol'' of
           None \<Rightarrow> (st, count)
         | Some symbol \<Rightarrow>
             if symbol = [] then (st, count)
             else
               let series = (case map_of (time_series doc) series_key of None \<Rightarrow> [] | Some s \<Rightarrow> s);
                   cache = PRICE_CACHE st;
                   cache1 = (if map_of cache symbol = None
                             then AList.update symbol \<lparr>daily = [], hourly = [], meta = meta\<rparr> cache
                             else cache);
                   cache2 = (case map_of cache1 symbol of
                               None \<Rightarrow> cache1
                             | Some sd \<Rightarrow> AList.update symbol (series_update ct series sd) cache1)
               in (st\<lparr>PRICE_CACHE := cache2\<rparr>, count + 1))"

definition load_jsonl_to_cache ::
  "env \<Rightarrow> string \<Rightarrow> string \<Rightarrow> cache_type \<Rightarrow> state \<Rightarrow> state \<times> nat" where
  "load_jsonl_to_cache e file_path series_key ct st =
     (case files e file_path of
        None \<Rightarrow> (logger (WARNING_data_file_not_found file_path) st, 0)
      | Some lines \<Rightarrow> foldl (load_line file_path series_key ct) (st, 0) lines)"

text \<open>
  \<^verbatim>\<open>_ensure_cache_loaded\<close>.  Run by one thread, the second test of the flag (under the
  lock) repeats the first.  Paths are relative to the base directory.
\<close>

definition ensure_cache_loaded :: "env \<Rightarrow> state \<Rightarrow> state" where
  "ensure_cache_loaded e st =
     (if CACHE_LOADED st then st
      else
        let total_symbols = 0;
            st = logger INFO_loading_price_data st;
            (st, count) = load_jsonl_to_cache e ''data/merged.jsonl'' ''Time Series (Daily)'' Daily st;
            st = logger (INFO_loaded count ''US stock symbols (daily)'') st;
            total_symbols = total_symbols + count;
            st = (if files e ''data/merged_hourly.jsonl'' \<noteq> None
                  then let (st, count) = load_jsonl_to_cache e ''data/merged_hourly.jsonl''
                                           ''Time Series (60min)'' Hourly st
                       in logger (INFO_loaded count ''US stock symbols (hourly)'') st
                  else st);
            (st, count) = load_jsonl_to_cache e ''data/A_stock/merged.jsonl'' ''Time Series (Daily)'' Daily st;
            st = logger (INFO_loaded count ''A-share symbols (daily)'') st;
            total_symbols = total_symbols + count;
            st = (if files e ''data/A_stock/merged_hourly.jsonl'' \<noteq> None
                  then let (st, count) = load_jsonl_to_cache e ''data/A_stock/merged_hourly.jsonl''
                                           ''Time Series (60min)'' Hourly st
                       in logger (INFO_loaded count ''A-share symbols (hourly)'') st
                  else st);
            (st, count) = load_jsonl_to_cache e ''data/crypto/crypto_merged.jsonl'' ''Time Series (Daily)'' Daily st;
            st = logger (INFO_loaded count ''crypto symbols (daily)'') st;
            total_symbols = total_symbols + count;
            st = st\<lparr>CACHE_LOADED := True\<rparr>
        in logger (INFO_cache_loaded total_symbols (length (PRICE_CACHE st))) st)"

subsection \<open>Azure Table Storage\<close>

text \<open>\<^verbatim>\<open>str(e)\<close> of an exception.\<close>

fun str_exc :: "py_exception \<Rightarrow> string" where
  "str_exc (ValueError m) = m"
| "str_exc (AttributeError m) = m"
| "str_exc (OtherException m) = m"

text \<open>
  \<^verbatim>\<open>x.get\<close> on a value that is not a dict raises
  \<^verbatim>\<open>AttributeError: 'T' object has no attribute 'get'\<close>, with the type's name for \<^verbatim>\<open>T\<close>.
\<close>

fun type_name :: "json \<Rightarrow> string" where
  "type_name JNull = ''NoneType''"
| "type_name (JBool b) = ''bool''"
| "type_name (JInt n) = ''int''"
| "type_name (JFloat r) = ''float''"
| "type_name (JStr s) = ''str''"
| "type_name (JArr xs) = ''list''"
| "type_name (JObj kvs) = ''dict''"

definition no_attribute_get :: "json \<Rightarrow> py_exception" where
  "no_attribute_get v = AttributeError ([CHR 0x27] @ type_name v @ [CHR 0x27] @ '' object has no attribute '' @ [CHR 0x27] @ ''get'' @ [CHR 0x27])"

text \<open>
  A \<^verbatim>\<open>try\<close> block whose handler is \<^verbatim>\<open>except Exception\<close>: the handler gets every
  exception the block raises, and runs in the state the block left.
\<close>

fun try_except ::
  "state \<times> (py_exception + 'a) \<Rightarrow> (py_exception \<Rightarrow> state \<Rightarrow> state \<times> (py_exception + 'a))
     \<Rightarrow> state \<times> (py_exception + 'a)" where
  "try_except (st, Inl exc) handler = handler exc st"
| "try_except (st, Inr v) handler = (st, Inr v)"

text \<open>\<^verbatim>\<open>f"{data_type}_{date}" if data_type == "hourly" else date\<close>\<close>

definition row_key_of :: "string \<Rightarrow> string \<Rightarrow> string" where
  "row_key_of data_type date = (if data_type = ''hourly'' then data_type @ ''_'' @ date else date)"

text \<open>The \<^verbatim>\<open>try\<close> block of \<^verbatim>\<open>_get_from_azure_table\<close>.\<close>

definition get_from_azure_table_try ::
  "table_client \<Rightarrow> state \<Rightarrow> string \<Rightarrow> string \<Rightarrow> string \<Rightarrow> state \<times> (py_exception + pydict option)" where
  "get_from_azure_table_try client st symbol date data_type =
     (let row_key = row_key_of data_type date;
          st = st\<lparr>azure_calls := azure_calls st @ [Get_entity symbol row_key]\<rparr>
      in case get_entity client symbol row_key of
           Inl exc \<Rightarrow> (st, Inl exc)
         | Inr entity \<Rightarrow>
             (st, Inr (Some [(''1. buy price'', dict_get entity ''open''),
                             (''2. high'', dict_get entity ''high''),
                             (''3. low'', dict_get entity ''low''),
                             (''4. sell price'', dict_get entity ''close''),
                             (''5. volume'', dict_get entity ''volume'')])))"

definition get_from_azure_table ::
  "state \<Rightarrow> string \<Rightarrow> string \<Rightarrow> string \<Rightarrow> state \<times> (py_exception + pydict option)" where
  "get_from_azure_table st symbol date data_type =
     (case (AZURE_ENABLED st, TABLE_CLIENT st) of
        (True, Some client) \<Rightarrow>
          try_except (get_from_azure_table_try client st symbol date data_type)
            (\<lambda>exc st. (st, Inr None))
      | _ \<Rightarrow> (st, Inr None))"

text \<open>
  The \<^verbatim>\<open>try\<close> block of \<^verbatim>\<open>_save_to_azure_table\<close>.  \<^verbatim>\<open>ohlcv.get\<close> is inside it, so
  a value without that method raises there, before the client is called.
\<close>

definition save_to_azure_table_try ::
  "env \<Rightarrow> table_client \<Rightarrow> state \<Rightarrow> string \<Rightarrow> string \<Rightarrow> json \<Rightarrow> string \<Rightarrow> state \<times> (py_exception + bool)" where
  "save_to_azure_table_try e client st symbol date ohlcv data_type =
     (let row_key = row_key_of data_type date
      in case ohlcv of
           JObj d \<Rightarrow>
             (let entity = [(''PartitionKey'', JStr symbol),
                            (''RowKey'', JStr row_key),
                            (''open'', dict_get d ''1. buy price''),
                            (''high'', dict_get d ''2. high''),
                            (''low'', dict_get d ''3. low''),
                            (''close'', dict_get d ''4. sell price''),
                            (''volume'', dict_get d ''5. volume''),
                            (''dataType'', JStr data_type),
                            (''timestamp'', JStr (utcnow_isoformat e))];
                  st = st\<lparr>azure_calls := azure_calls st @ [Upsert_entity entity]\<rparr>
              in case upsert_entity client entity of
                   Inl exc \<Rightarrow> (st, Inl exc)
                 | Inr u \<Rightarrow> (st, Inr True))
         | _ \<Rightarrow> (st, Inl (no_attribute_get ohlcv)))"

definition save_to_azure_table ::
  "env \<Rightarrow> state \<Rightarrow> string \<Rightarrow> string \<Rightarrow> json \<Rightarrow> string \<Rightarrow> state \<times> (py_exception + bool)" where
  "save_to_azure_table e st symbol date ohlcv data_type =
     (case (AZURE_ENABLED st, TABLE_CLIENT st) of
        (True, Some client) \<Rightarrow>
          try_except (save_to_azure_table_try e client st symbol date ohlcv data_type)
            (\<lambda>exc st. (logger (WARNING_failed_to_save (str_exc exc)) st, Inr False))
      | _ \<Rightarrow> (st, Inr False))"

subsection \<open>Lookup\<close>

definition validate_date_daily :: "env \<Rightarrow> string \<Rightarrow> py_exception + unit" where
  "validate_date_daily e date_str =
     (if strptime e date_str ''%Y-%m-%d'' then Inr ()
      else Inl (ValueError ''date must be in YYYY-MM-DD format''))"

definition validate_date_hourly :: "env \<Rightarrow> string \<Rightarrow> py_exception + unit" where
  "validate_date_hourly e date_str =
     (if strptime e date_str ''%Y-%m-%d %H:%M:%S'' then Inr ()
      else Inl (ValueError ''date must be in YYYY-MM-DD HH:MM:SS format''))"

text \<open>The \<^verbatim>\<open>"ohlcv"\<close> dict of a response, and the two shapes a response has.\<close>

record ohlcv =
  open' :: json
  high :: json
  low :: json
  close :: json
  volume :: json

text \<open>
  The text under \<^verbatim>\<open>"error"\<close>: a plain string, or the message
  \<^verbatim>\<open>f"Data not found for date {date}. Sample available dates: {available_dates}"\<close>, kept
  as its two parts.
\<close>

datatype error_text =
    Text string
  | Data_not_found string "string list"

datatype response =
    Price string string ohlcv
  | Error error_text string string

definition format_ohlcv_response :: "string \<Rightarrow> string \<Rightarrow> json \<Rightarrow> bool \<Rightarrow> py_exception + response" where
  "format_ohlcv_response symbol date day_data is_today =
     (case day_data of
        JObj d \<Rightarrow>
          if is_today then
            Inr (Price symbol date
                   \<lparr>open' = dict_get d ''1. buy price'',
                    high = JStr ''You can not get the current high price'',
                    low = JStr ''You can not get the current low price'',
                    close = JStr ''You can not get the next close price'',
                    volume = JStr ''You can not get the current volume''\<rparr>)
          else
            Inr (Price symbol date
                   \<lparr>open' = dict_get d ''1. buy price'',
                    high = dict_get d ''2. high'',
                    low = dict_get d ''3. low'',
                    close = dict_get d ''4. sell price'',
                    volume = dict_get d ''5. volume''\<rparr>)
      | _ \<Rightarrow> Inl (no_attribute_get day_data))"

text \<open>\<^verbatim>\<open>date == get_config_value("TODAY_DATE")\<close>\<close>

definition is_today_date :: "env \<Rightarrow> string \<Rightarrow> bool" where
  "is_today_date e date = (get_config_value e ''TODAY_DATE'' = Some date)"

text \<open>
  The end of both lookup functions, reached when the cache gave no answer: the Azure
  fallback and the final miss.  In the lookups an entry of the cache is a dict of three
  keys, so \<^verbatim>\<open>if symbol_data:\<close> holds exactly when the symbol is in the cache.
\<close>

definition no_records :: "string \<Rightarrow> string \<Rightarrow> response" where
  "no_records symbol date =
     Error (Text (''No records found for stock '' @ symbol @ '' in local data'')) symbol date"

definition azure_fallback ::
  "env \<Rightarrow> state \<Rightarrow> string \<Rightarrow> string \<Rightarrow> string \<Rightarrow> state \<times> (py_exception + response)" where
  "azure_fallback e st symbol date data_type =
     (if AZURE_ENABLED st then
        (case get_from_azure_table st symbol date data_type of
           (st, Inl exc) \<Rightarrow> (st, Inl exc)
         | (st, Inr None) \<Rightarrow> (st, Inr (no_records symbol date))
         | (st, Inr (Some azure_data)) \<Rightarrow>
             if truthy (JObj azure_data)
             then (st, format_ohlcv_response symbol date (JObj azure_data) (is_today_date e date))
             else (st, Inr (no_records symbol date)))
      else (st, Inr (no_records symbol date)))"

definition get_price_local_daily ::
  "env \<Rightarrow> state \<Rightarrow> string \<Rightarrow> string \<Rightarrow> state \<times> (py_exception + response)" where
  "get_price_local_daily e st symbol date =
     (case validate_date_daily e date of
        Inl exc \<Rightarrow> (st, Inr (Error (Text (str_exc exc)) symbol date))
      | Inr u \<Rightarrow>
          (let st = ensure_cache_loaded e st
           in (case map_of (PRICE_CACHE st) symbol of
                 None \<Rightarrow> azure_fallback e st symbol date ''daily''
               | Some symbol_data \<Rightarrow>
                   (let day_data = dict_get (daily symbol_data) date
                    in if truthy day_data
                       then (st, format_ohlcv_response symbol date day_data (is_today_date e date))
                       else
                         (let available_dates = take 5 (rev (sort (map fst (daily symbol_data))))
                          in if available_dates \<noteq> []
                             then (st, Inr (Error (Data_not_found date available_dates) symbol date))
                             else azure_fallback e st symbol date ''daily'')))))"

definition get_price_local_hourly ::
  "env \<Rightarrow> state \<Rightarrow> string \<Rightarrow> string \<Rightarrow> state \<times> (py_exception + response)" where
  "get_price_local_hourly e st symbol date =
     (case validate_date_hourly e date of
        Inl exc \<Rightarrow> (st, Inr (Error (Text (str_exc exc)) symbol date))
      | Inr u \<Rightarrow>
          (let st = ensure_cache_loaded e st
           in (case map_of (PRICE_CACHE st) symbol of
                 None \<Rightarrow> azure_fallback e st symbol date ''hourly''
               | Some symbol_data \<Rightarrow>
                   (let hour_data = dict_get (hourly symbol_data) date
                    in if truthy hour_data
                       then (st, format_ohlcv_response symbol date hour_data (is_today_date e date))
                       else
                         (let available_dates = take 5 (rev (sort (map fst (hourly symbol_data))))
                          in if available_dates \<noteq> []
                             then (st, Inr (Error (Data_not_found date available_dates) symbol date))
                             else azure_fallback e st symbol date ''hourly'')))))"

text \<open>The tool \<^verbatim>\<open>get_price_local\<close>: load, then route on the shape of the string.\<close>

definition get_price_local ::
  "env \<Rightarrow> state \<Rightarrow> string \<Rightarrow> string \<Rightarrow> state \<times> (py_exception + response)" where
  "get_price_local e st symbol date =
     (let st = ensure_cache_loaded e st
      in if CHR '' '' \<in> set date \<or> CHR ''T'' \<in> set date
         then get_price_local_hourly e st symbol date
         else get_price_local_daily e st symbol date)"

subsection \<open>The content of the index, stated independently of the loader\<close>

text \<open>
  What one line contributes, if anything: a symbol, the series to merge under the given
  granularity, and the metadata that came with it.
\<close>

type_synonym merge_record = "string \<times> cache_type \<times> pydict \<times> meta_data"

definition line_record :: "string \<Rightarrow> cache_type \<Rightarrow> line \<Rightarrow> merge_record option" where
  "line_record series_key ct l =
     (case l of
        Doc doc \<Rightarrow>
          (case map_of (case Meta_Data doc of None \<Rightarrow> [] | Some m \<Rightarrow> m) ''2. Symbol'' of
             None \<Rightarrow> None
           | Some symbol \<Rightarrow>
               if symbol = [] then None
               else Some (symbol, ct,
                          (case map_of (time_series doc) series_key of None \<Rightarrow> [] | Some s \<Rightarrow> s),
                          (case Meta_Data doc of None \<Rightarrow> [] | Some m \<Rightarrow> m)))
      | _ \<Rightarrow> None)"

text \<open>The configured sources, in load order: path, series field, granularity.\<close>

definition sources :: "(string \<times> string \<times> cache_type) list" where
  "sources =
     [(''data/merged.jsonl'', ''Time Series (Daily)'', Daily),
      (''data/merged_hourly.jsonl'', ''Time Series (60min)'', Hourly),
      (''data/A_stock/merged.jsonl'', ''Time Series (Daily)'', Daily),
      (''data/A_stock/merged_hourly.jsonl'', ''Time Series (60min)'', Hourly),
      (''data/crypto/crypto_merged.jsonl'', ''Time Series (Daily)'', Daily)]"

definition source_records :: "env \<Rightarrow> string \<times> string \<times> cache_type \<Rightarrow> merge_record list" where
  "source_records e src =
     (case src of (file_path, series_key, ct) \<Rightarrow>
        (case files e file_path of
           None \<Rightarrow> []
         | Some lines \<Rightarrow> List.map_filter (line_record series_key ct) lines))"

definition all_records :: "env \<Rightarrow> merge_record list" where
  "all_records e = concat (map (source_records e) sources)"

text \<open>Merging one record: create the symbol's entry on first encounter, then update its series.\<close>

definition merge_record :: "(string \<times> symbol_data) list \<Rightarrow> merge_record \<Rightarrow> (string \<times> symbol_data) list" where
  "merge_record cache r =
     (case r of (symbol, ct, series, m) \<Rightarrow>
        AList.update symbol
          (series_update ct series
             (case map_of cache symbol of
                None \<Rightarrow> \<lparr>daily = [], hourly = [], meta = m\<rparr>
              | Some sd \<Rightarrow> sd))
          cache)"

text \<open>The bar the index holds for a symbol, a granularity and a key.\<close>

definition cache_lookup :: "(string \<times> symbol_data) list \<Rightarrow> string \<Rightarrow> cache_type \<Rightarrow> string \<Rightarrow> json option" where
  "cache_lookup cache symbol ct key =
     (case map_of cache symbol of None \<Rightarrow> None | Some sd \<Rightarrow> map_of (series_of ct sd) key)"

text \<open>The granularity \<^verbatim>\<open>get_price_local\<close> detects, with the format and the name that go with it.\<close>

definition detect :: "string \<Rightarrow> cache_type" where
  "detect date = (if CHR '' '' \<in> set date \<or> CHR ''T'' \<in> set date then Hourly else Daily)"

fun format_of :: "cache_type \<Rightarrow> string" where
  "format_of Daily = ''%Y-%m-%d''"
| "format_of Hourly = ''%Y-%m-%d %H:%M:%S''"

fun format_error :: "cache_type \<Rightarrow> string" where
  "format_error Daily = ''date must be in YYYY-MM-DD format''"
| "format_error Hourly = ''date must be in YYYY-MM-DD HH:MM:SS format''"

fun data_type_of :: "cache_type \<Rightarrow> string" where
  "data_type_of Daily = ''daily''"
| "data_type_of Hourly = ''hourly''"

subsection \<open>Example data\<close>

text \<open>The globals as the module initialises them.\<close>

definition initial_state :: state where
  "initial_state =
     \<lparr>PRICE_CACHE = [], CACHE_LOADED = False, TABLE_CLIENT = None, AZURE_ENABLED = False,
      logged = [], azure_calls = []\<rparr>"

definition bar_1029 :: json where
  "bar_1029 = JObj [(''1. buy price'', JStr ''270.00''), (''2. high'', JStr ''275.10''),
                    (''3. low'', JStr ''268.50''), (''4. sell price'', JStr ''274.20''),
                    (''5. volume'', JStr ''3100000'')]"

definition bar_1030 :: json where
  "bar_1030 = JObj [(''1. buy price'', JStr ''274.50''), (''2. high'', JStr ''279.00''),
                    (''3. low'', JStr ''273.10''), (''4. sell price'', JStr ''278.40''),
                    (''5. volume'', JStr ''2900000'')]"

definition bar_1030_later :: json where
  "bar_1030_later = JObj [(''1. buy price'', JStr ''274.50''), (''2. high'', JStr ''279.00''),
                          (''3. low'', JStr ''273.10''), (''4. sell price'', JStr ''278.95''),
                          (''5. volume'', JNull)]"

definition bar_hour :: json where
  "bar_hour = JObj [(''1. buy price'', JStr ''276.00''), (''2. high'', JStr ''276.80''),
                    (''4. sell price'', JStr ''276.30'')]"

definition doc_ibm :: document where
  "doc_ibm =
     \<lparr>Meta_Data = Some [(''1. Information'', ''Daily Prices''), (''2. Symbol'', ''IBM'')],
      time_series = [(''Time Series (Daily)'', [(''2025-10-29'', bar_1029), (''2025-10-30'', bar_1030)])]\<rparr>"

definition doc_ibm_later :: document where
  "doc_ibm_later =
     \<lparr>Meta_Data = Some [(''1. Information'', ''Second source''), (''2. Symbol'', ''IBM'')],
      time_series = [(''Time Series (Daily)'', [(''2025-10-30'', bar_1030_later)])]\<rparr>"

definition doc_ibm_hourly :: document where
  "doc_ibm_hourly =
     \<lparr>Meta_Data = Some [(''1. Information'', ''Intraday (60min)''), (''2. Symbol'', ''IBM'')],
      time_series = [(''Time Series (60min)'', [(''2025-10-30 14:00:00'', bar_hour)])]\<rparr>"

definition doc_no_symbol :: document where
  "doc_no_symbol =
     \<lparr>Meta_Data = Some [(''1. Information'', ''Daily Prices'')],
      time_series = [(''Time Series (Daily)'', [(''2025-10-29'', bar_1029)])]\<rparr>"

definition doc_msft :: document where
  "doc_msft = \<lparr>Meta_Data = Some [(''2. Symbol'', ''MSFT'')], time_series = []\<rparr>"

definition example_files :: "string \<Rightarrow> line list option" where
  "example_files file_path =
     (if file_path = ''data/merged.jsonl''
      then Some [Doc doc_ibm, Blank, Malformed ''Expecting value: line 1 column 1 (char 0)'',
                 Doc doc_no_symbol, Doc doc_msft]
      else if file_path = ''data/merged_hourly.jsonl'' then Some [Doc doc_ibm_hourly]
      else if file_path = ''data/A_stock/merged.jsonl'' then Some [Doc doc_ibm_later]
      else None)"

text \<open>
  An excerpt of \<^verbatim>\<open>datetime.strptime\<close>: the strings of the examples it accepts under
  each of the two formats; \<^verbatim>\<open>"2025-13-40"\<close> is rejected under both.
\<close>

definition example_strptime :: "string \<Rightarrow> string \<Rightarrow> bool" where
  "example_strptime date_str fmt =
     ((fmt = ''%Y-%m-%d'' \<and> date_str \<in> set [''2025-10-29'', ''2025-10-30'', ''2025-10-31'', ''2024-01-02''])
      \<or> (fmt = ''%Y-%m-%d %H:%M:%S'' \<and> date_str \<in> set [''2025-10-30 14:00:00'', ''2025-10-30 15:00:00'']))"

definition example_env :: env where
  "example_env =
     \<lparr>files = example_files, strptime = example_strptime,
      get_config_value = (\<lambda>k. if k = ''TODAY_DATE'' then Some ''2025-10-30'' else None),
      utcnow_isoformat = ''2025-10-30T12:00:00''\<rparr>"


text \<open>A table client that knows one row and fails on every write, and a state that uses it.\<close>

definition example_client :: table_client where
  "example_client =
     \<lparr>get_entity = (\<lambda>partition_key row_key.
         if partition_key = ''TSLA'' \<and> row_key = ''2025-10-29''
         then Inr [(''PartitionKey'', JStr ''TSLA''), (''RowKey'', JStr ''2025-10-29''),
                   (''open'', JFloat 440), (''high'', JFloat 452), (''low'', JFloat 438),
                   (''close'', JFloat 449), (''volume'', JInt 81000000)]
         else Inl (OtherException ''ResourceNotFoundError'')),
      upsert_entity = (\<lambda>entity. Inl (OtherException ''HttpResponseError''))\<rparr>"

definition azure_state :: state where
  "azure_state = initial_state\<lparr>TABLE_CLIENT := Some example_client, AZURE_ENABLED := True\<rparr>"

text \<open>A crypto file alone, with one symbol and six daily keys in no particular order.\<close>

definition doc_btc :: document where
  "doc_btc =
     \<lparr>Meta_Data = Some [(''2. Symbol'', ''BTC'')],
      time_series = [(''Time Series (Daily)'',
                      [(''2025-10-27'', JObj [(''1. buy price'', JInt 114000)]),
                       (''2025-10-24'', JObj [(''1. buy price'', JInt 110000)]),
                       (''2025-10-29'', JObj [(''1. buy price'', JInt 112900)]),
                       (''2025-10-25'', JObj [(''1. buy price'', JInt 111000)]),
                       (''2025-10-28'', JObj [(''1. buy price'', JInt 114100)]),
                       (''2025-10-26'', JObj [(''1. buy price'', JInt 111600)])])]\<rparr>"

definition crypto_env :: env where
  "crypto_env =
     example_env\<lparr>files := (\<lambda>file_path. if file_path = ''data/crypto/crypto_merged.jsonl''
                                       then Some [Doc doc_btc] else None)\<rparr>"

section \<open>Properties\<close>

subsection \<open>Dicts and the loader\<close>


lemma map_of_dict_update:
  "map_of (dict_update d other) k = (case map_of (rev other) k of Some v \<Rightarrow> Some v | None \<Rightarrow> map_of d k)"
proof -
  have "map_of (fold (\<lambda>(k, v). AList.update k v) other d) k =
        (case map_of (rev other) k of Some v \<Rightarrow> Some v | None \<Rightarrow> map_of d k)"
  proof (induction other arbitrary: d)
    case Nil
    show ?case by simp
  next
    case (Cons a other)
    obtain ka va where a: "a = (ka, va)" by (cases a)
    show ?case
      by (simp add: a Cons.IH update_conv' map_add_def split: option.splits)
  qed
  then show ?thesis by (simp add: dict_update_def)
qed

lemma map_of_rev_distinct:
  "distinct (map fst xs) \<Longrightarrow> map_of (rev xs) = map_of xs"
proof (induction xs)
  case Nil
  show ?case by simp
next
  case (Cons a xs)
  obtain ka va where a: "a = (ka, va)" by (cases a)
  from Cons.prems have notin: "ka \<notin> fst ` set xs" and d: "distinct (map fst xs)"
    by (auto simp: a)
  have "map_of xs ka = None" using notin by (simp add: map_of_eq_None_iff)
  then show ?case
    using Cons.IH [OF d] by (auto simp: a map_add_def fun_eq_iff split: option.splits)
qed

lemma map_of_dict_update_distinct:
  "distinct (map fst other) \<Longrightarrow>
   map_of (dict_update d other) k = (case map_of other k of Some v \<Rightarrow> Some v | None \<Rightarrow> map_of d k)"
  by (simp add: map_of_dict_update map_of_rev_distinct)

lemma map_of_dict_update_absent:
  "k \<notin> fst ` set other \<Longrightarrow> map_of (dict_update d other) k = map_of d k"
proof -
  assume "k \<notin> fst ` set other"
  then have "k \<notin> fst ` set (rev other)" by simp
  then have "map_of (rev other) k = None" by (simp add: map_of_eq_None_iff)
  then show ?thesis by (simp add: map_of_dict_update)
qed

lemma keys_dict_update:
  "fst ` set (dict_update d other) = fst ` set d \<union> fst ` set other"
proof -
  have "fst ` set (fold (\<lambda>(k, v). AList.update k v) other d) = fst ` set d \<union> fst ` set other"
  proof (induction other arbitrary: d)
    case Nil show ?case by simp
  next
    case (Cons a other)
    obtain ka va where a: "a = (ka, va)" by (cases a)
    show ?case by (simp add: a Cons.IH dom_update Un_ac insert_commute)
  qed
  then show ?thesis by (simp add: dict_update_def)
qed

lemma distinct_dict_update:
  "distinct (map fst d) \<Longrightarrow> distinct (map fst (dict_update d other))"
proof -
  have "distinct (map fst d) \<Longrightarrow> distinct (map fst (fold (\<lambda>(k, v). AList.update k v) other d))"
  proof (induction other arbitrary: d)
    case Nil then show ?case by simp
  next
    case (Cons a other)
    obtain ka va where a: "a = (ka, va)" by (cases a)
    show ?case using Cons.prems by (simp add: a Cons.IH distinct_update)
  qed
  then show "distinct (map fst d) \<Longrightarrow> ?thesis" by (simp add: dict_update_def)
qed


lemma logger_fields [simp]:
  "PRICE_CACHE (logger r st) = PRICE_CACHE st"
  "CACHE_LOADED (logger r st) = CACHE_LOADED st"
  "TABLE_CLIENT (logger r st) = TABLE_CLIENT st"
  "AZURE_ENABLED (logger r st) = AZURE_ENABLED st"
  "azure_calls (logger r st) = azure_calls st"
  "logged (logger r st) = logged st @ [r]"
  by (simp_all add: logger_def)

lemma load_line_cache:
  "PRICE_CACHE (fst (load_line p k ct (st, c) l)) =
     (case line_record k ct l of None \<Rightarrow> PRICE_CACHE st | Some r \<Rightarrow> merge_record (PRICE_CACHE st) r)"
proof (cases l)
  case Blank
  then show ?thesis by (simp add: line_record_def)
next
  case (Malformed m)
  then show ?thesis by (simp add: line_record_def)
next
  case (Doc doc)
  then show ?thesis
    by (auto simp: line_record_def merge_record_def Let_def update_conv' split: option.splits)
qed

lemma load_line_count:
  "snd (load_line p k ct (st, c) l) = c + (case line_record k ct l of None \<Rightarrow> 0 | Some r \<Rightarrow> 1)"
  by (cases l) (auto simp: line_record_def Let_def split: option.splits)

lemma load_line_frame:
  "CACHE_LOADED (fst (load_line p k ct (st, c) l)) = CACHE_LOADED st"
  "TABLE_CLIENT (fst (load_line p k ct (st, c) l)) = TABLE_CLIENT st"
  "AZURE_ENABLED (fst (load_line p k ct (st, c) l)) = AZURE_ENABLED st"
  "azure_calls (fst (load_line p k ct (st, c) l)) = azure_calls st"
  by (cases l; auto simp: Let_def split: option.splits)+

lemma foldl_load_line:
  "PRICE_CACHE (fst (foldl (load_line p k ct) (st, c) ls)) =
     foldl merge_record (PRICE_CACHE st) (List.map_filter (line_record k ct) ls)
   \<and> snd (foldl (load_line p k ct) (st, c) ls) = c + length (List.map_filter (line_record k ct) ls)
   \<and> CACHE_LOADED (fst (foldl (load_line p k ct) (st, c) ls)) = CACHE_LOADED st
   \<and> TABLE_CLIENT (fst (foldl (load_line p k ct) (st, c) ls)) = TABLE_CLIENT st
   \<and> AZURE_ENABLED (fst (foldl (load_line p k ct) (st, c) ls)) = AZURE_ENABLED st
   \<and> azure_calls (fst (foldl (load_line p k ct) (st, c) ls)) = azure_calls st"
proof (induction ls arbitrary: st c)
  case Nil
  show ?case by simp
next
  case (Cons l ls)
  obtain st1 c1 where step: "load_line p k ct (st, c) l = (st1, c1)"
    by (cases "load_line p k ct (st, c) l")
  have cache1: "PRICE_CACHE st1 =
      (case line_record k ct l of None \<Rightarrow> PRICE_CACHE st | Some r \<Rightarrow> merge_record (PRICE_CACHE st) r)"
    using load_line_cache [of p k ct st c l] by (simp add: step)
  have count1: "c1 = c + (case line_record k ct l of None \<Rightarrow> 0 | Some r \<Rightarrow> 1)"
    using load_line_count [of p k ct st c l] by (simp add: step)
  have frame1: "CACHE_LOADED st1 = CACHE_LOADED st" "TABLE_CLIENT st1 = TABLE_CLIENT st"
    "AZURE_ENABLED st1 = AZURE_ENABLED st" "azure_calls st1 = azure_calls st"
    using load_line_frame [of p k ct st c l] by (simp_all add: step)
  show ?case
    using Cons.IH [of st1 c1]
    by (simp add: step cache1 count1 frame1 split: option.splits)
qed

lemma load_jsonl_to_cache_result:
  "PRICE_CACHE (fst (load_jsonl_to_cache e p k ct st)) =
     foldl merge_record (PRICE_CACHE st) (source_records e (p, k, ct))
   \<and> snd (load_jsonl_to_cache e p k ct st) = length (source_records e (p, k, ct))
   \<and> CACHE_LOADED (fst (load_jsonl_to_cache e p k ct st)) = CACHE_LOADED st
   \<and> TABLE_CLIENT (fst (load_jsonl_to_cache e p k ct st)) = TABLE_CLIENT st
   \<and> AZURE_ENABLED (fst (load_jsonl_to_cache e p k ct st)) = AZURE_ENABLED st
   \<and> azure_calls (fst (load_jsonl_to_cache e p k ct st)) = azure_calls st"
proof (cases "files e p")
  case None
  then show ?thesis by (simp add: load_jsonl_to_cache_def source_records_def)
next
  case (Some ls)
  then show ?thesis
    using foldl_load_line [of p k ct st 0 ls]
    by (simp add: load_jsonl_to_cache_def source_records_def)
qed

lemmas load_jsonl_simps = load_jsonl_to_cache_result [THEN conjunct1]
  load_jsonl_to_cache_result [THEN conjunct2, THEN conjunct1]
  load_jsonl_to_cache_result [THEN conjunct2, THEN conjunct2, THEN conjunct1]
  load_jsonl_to_cache_result [THEN conjunct2, THEN conjunct2, THEN conjunct2, THEN conjunct1]
  load_jsonl_to_cache_result [THEN conjunct2, THEN conjunct2, THEN conjunct2, THEN conjunct2, THEN conjunct1]
  load_jsonl_to_cache_result [THEN conjunct2, THEN conjunct2, THEN conjunct2, THEN conjunct2, THEN conjunct2]

lemma source_records_missing: "files e p = None \<Longrightarrow> source_records e (p, k, ct) = []"
  by (simp add: source_records_def)

lemma ensure_cache_loaded_cache:
  "\<not> CACHE_LOADED st \<Longrightarrow>
   PRICE_CACHE (ensure_cache_loaded e st) = foldl merge_record (PRICE_CACHE st) (all_records e)"
  by (simp add: ensure_cache_loaded_def Let_def case_prod_beta load_jsonl_simps
        all_records_def sources_def source_records_missing)

lemma ensure_cache_loaded_frame:
  "CACHE_LOADED (ensure_cache_loaded e st)"
  "TABLE_CLIENT (ensure_cache_loaded e st) = TABLE_CLIENT st"
  "AZURE_ENABLED (ensure_cache_loaded e st) = AZURE_ENABLED st"
  "azure_calls (ensure_cache_loaded e st) = azure_calls st"
  by (simp_all add: ensure_cache_loaded_def Let_def case_prod_beta load_jsonl_simps)

lemma ensure_cache_loaded_loaded:
  "CACHE_LOADED st \<Longrightarrow> ensure_cache_loaded e st = st"
  by (simp add: ensure_cache_loaded_def)

lemma ensure_cache_loaded_idem:
  "ensure_cache_loaded e (ensure_cache_loaded e st) = ensure_cache_loaded e st"
  by (rule ensure_cache_loaded_loaded) (rule ensure_cache_loaded_frame)


lemma get_price_local_unfold:
  "get_price_local e st symbol date =
     (let st' = ensure_cache_loaded e st; ct = detect date
      in if \<not> strptime e date (format_of ct)
         then (st', Inr (Error (Text (format_error ct)) symbol date))
         else case map_of (PRICE_CACHE st') symbol of
                None \<Rightarrow> azure_fallback e st' symbol date (data_type_of ct)
              | Some sd \<Rightarrow>
                  if truthy (dict_get (series_of ct sd) date)
                  then (st', format_ohlcv_response symbol date (dict_get (series_of ct sd) date)
                               (is_today_date e date))
                  else if take 5 (rev (sort (map fst (series_of ct sd)))) \<noteq> []
                  then (st', Inr (Error (Data_not_found date
                                          (take 5 (rev (sort (map fst (series_of ct sd)))))) symbol date))
                  else azure_fallback e st' symbol date (data_type_of ct))"
  by (simp add: get_price_local_def get_price_local_daily_def get_price_local_hourly_def
        validate_date_daily_def validate_date_hourly_def detect_def ensure_cache_loaded_idem Let_def
      split: option.splits)


subsection \<open>Redaction of the current day\<close>

text \<open>
  C4.  For a bar resolved for the request, \<^verbatim>\<open>_format_ohlcv_response\<close> is called with
  \<^verbatim>\<open>is_today = (date == get_config_value("TODAY_DATE"))\<close>.  When the date equals the
  configured value, the response holds the bar's open and the four fixed placeholder
  strings; otherwise it holds the five fields of the bar as they are, a missing field
  coming out as \<^verbatim>\<open>None\<close>.
\<close>

theorem format_ohlcv_response_redaction:
  "format_ohlcv_response symbol date (JObj bar) (is_today_date e date) =
     Inr (Price symbol date
            (if get_config_value e ''TODAY_DATE'' = Some date
             then \<lparr>open' = dict_get bar ''1. buy price'',
                   high = JStr ''You can not get the current high price'',
                   low = JStr ''You can not get the current low price'',
                   close = JStr ''You can not get the next close price'',
                   volume = JStr ''You can not get the current volume''\<rparr>
             else \<lparr>open' = dict_get bar ''1. buy price'',
                   high = dict_get bar ''2. high'',
                   low = dict_get bar ''3. low'',
                   close = dict_get bar ''4. sell price'',
                   volume = dict_get bar ''5. volume''\<rparr>))
   \<and> (\<forall>field. field \<notin> fst ` set bar \<longrightarrow> dict_get bar field = JNull)"
proof (rule conjI)
  show "format_ohlcv_response symbol date (JObj bar) (is_today_date e date) =
     Inr (Price symbol date
            (if get_config_value e ''TODAY_DATE'' = Some date
             then \<lparr>open' = dict_get bar ''1. buy price'',
                   high = JStr ''You can not get the current high price'',
                   low = JStr ''You can not get the current low price'',
                   close = JStr ''You can not get the next close price'',
                   volume = JStr ''You can not get the current volume''\<rparr>
             else \<lparr>open' = dict_get bar ''1. buy price'',
                   high = dict_get bar ''2. high'',
                   low = dict_get bar ''3. low'',
                   close = dict_get bar ''4. sell price'',
                   volume = dict_get bar ''5. volume''\<rparr>))"
    by (simp add: format_ohlcv_response_def is_today_date_def)
next
  show "\<forall>field. field \<notin> fst ` set bar \<longrightarrow> dict_get bar field = JNull"
  proof (intro allI impI)
    fix field
    assume "field \<notin> fst ` set bar"
    then have "map_of bar field = None" by (simp add: map_of_eq_None_iff)
    then show "dict_get bar field = JNull" by (simp add: dict_get_def)
  qed
qed

text \<open>The bar of the current day is redacted; an hourly bar with two fields missing passes through.\<close>

theorem format_ohlcv_response_redaction_witness:
  "format_ohlcv_response ''IBM'' ''2025-10-30'' bar_1030_later (is_today_date example_env ''2025-10-30'') =
     Inr (Price ''IBM'' ''2025-10-30''
            \<lparr>open' = JStr ''274.50'',
             high = JStr ''You can not get the current high price'',
             low = JStr ''You can not get the current low price'',
             close = JStr ''You can not get the next close price'',
             volume = JStr ''You can not get the current volume''\<rparr>)
   \<and> format_ohlcv_response ''IBM'' ''2025-10-30 14:00:00'' bar_hour
        (is_today_date example_env ''2025-10-30 14:00:00'') =
     Inr (Price ''IBM'' ''2025-10-30 14:00:00''
            \<lparr>open' = JStr ''276.00'', high = JStr ''276.80'', low = JNull,
             close = JStr ''276.30'', volume = JNull\<rparr>)"
proof -
  have today: "get_config_value example_env ''TODAY_DATE'' = Some ''2025-10-30''"
    by (simp add: example_env_def)
  have absent: "''3. low'' \<notin> fst ` set [(''1. buy price'', JStr ''276.00''), (''2. high'', JStr ''276.80''),
                    (''4. sell price'', JStr ''276.30'')]"
               "''5. volume'' \<notin> fst ` set [(''1. buy price'', JStr ''276.00''), (''2. high'', JStr ''276.80''),
                    (''4. sell price'', JStr ''276.30'')]"
    by simp_all
  show ?thesis
    using format_ohlcv_response_redaction [of "''IBM''" "''2025-10-30''" _ example_env]
      format_ohlcv_response_redaction [of "''IBM''" "''2025-10-30 14:00:00''"
         "[(''1. buy price'', JStr ''276.00''), (''2. high'', JStr ''276.80''),
                    (''4. sell price'', JStr ''276.30'')]" example_env]
      absent
    by (simp add: today bar_1030_later_def bar_hour_def dict_get_def)
qed

subsection \<open>Granularity detection\<close>

text \<open>
  C5.  \<^verbatim>\<open>get_price_local\<close> routes on the characters of the string alone: with a space
  or a \<^verbatim>\<open>T\<close> in it the request goes to the hourly lookup, which validates against
  \<^verbatim>\<open>%Y-%m-%d %H:%M:%S\<close>; otherwise to the daily lookup, which validates against
  \<^verbatim>\<open>%Y-%m-%d\<close>.  The format that is checked is the one detection chose, so a string
  that the other format would accept is still rejected.
\<close>

theorem get_price_local_detection:
  "get_price_local e st symbol date =
     (if strptime e date (if CHR '' '' \<in> set date \<or> CHR ''T'' \<in> set date
                          then ''%Y-%m-%d %H:%M:%S'' else ''%Y-%m-%d'')
      then (if CHR '' '' \<in> set date \<or> CHR ''T'' \<in> set date
            then get_price_local_hourly e (ensure_cache_loaded e st) symbol date
            else get_price_local_daily e (ensure_cache_loaded e st) symbol date)
      else (ensure_cache_loaded e st,
            Inr (Error (Text (if CHR '' '' \<in> set date \<or> CHR ''T'' \<in> set date
                              then ''date must be in YYYY-MM-DD HH:MM:SS format''
                              else ''date must be in YYYY-MM-DD format'')) symbol date)))"
  by (simp add: get_price_local_def get_price_local_daily_def get_price_local_hourly_def
        validate_date_daily_def validate_date_hourly_def Let_def)

text \<open>
  An ISO timestamp with \<^verbatim>\<open>T\<close> is routed to the hourly lookup and rejected there; a
  timestamp with a space and a plain date reach the hourly and the daily lookup.
\<close>

theorem get_price_local_detection_witness:
  "snd (get_price_local example_env initial_state ''IBM'' ''2025-10-30T14:00:00'') =
     Inr (Error (Text ''date must be in YYYY-MM-DD HH:MM:SS format'') ''IBM'' ''2025-10-30T14:00:00'')
   \<and> get_price_local example_env initial_state ''IBM'' ''2025-10-30 14:00:00'' =
       get_price_local_hourly example_env (ensure_cache_loaded example_env initial_state)
         ''IBM'' ''2025-10-30 14:00:00''
   \<and> get_price_local example_env initial_state ''IBM'' ''2025-10-30'' =
       get_price_local_daily example_env (ensure_cache_loaded example_env initial_state)
         ''IBM'' ''2025-10-30''"
  using get_price_local_detection [of example_env initial_state "''IBM''" "''2025-10-30T14:00:00''"]
    get_price_local_detection [of example_env initial_state "''IBM''" "''2025-10-30 14:00:00''"]
    get_price_local_detection [of example_env initial_state "''IBM''" "''2025-10-30''"]
  by (simp add: example_env_def example_strptime_def)

subsection \<open>The Azure adapter\<close>

lemma get_from_azure_table_calls:
  "azure_calls (fst (get_from_azure_table st symbol date dt)) =
     (if AZURE_ENABLED st \<and> TABLE_CLIENT st \<noteq> None
      then azure_calls st @ [Get_entity symbol (row_key_of dt date)] else azure_calls st)"
  by (auto simp: get_from_azure_table_def get_from_azure_table_try_def Let_def
           split: option.splits sum.splits bool.splits)

text \<open>
  C9.  \<^verbatim>\<open>_get_from_azure_table\<close> always returns: whatever exception the client raises
  gives \<^verbatim>\<open>None\<close>, the result of a row that is not there.  \<^verbatim>\<open>_save_to_azure_table\<close>
  always returns a boolean: when the client raises on the write, the result is
  \<^verbatim>\<open>False\<close> and one warning with the exception's text is logged.
\<close>

theorem azure_adapter_never_raises:
  "(\<exists>row. snd (get_from_azure_table st symbol date data_type) = Inr row)
   \<and> (\<forall>client exc. AZURE_ENABLED st \<and> TABLE_CLIENT st = Some client
          \<and> get_entity client symbol (row_key_of data_type date) = Inl exc
        \<longrightarrow> snd (get_from_azure_table st symbol date data_type) = Inr None)
   \<and> (\<exists>ok. snd (save_to_azure_table e st symbol date ohlcv data_type) = Inr ok)
   \<and> (\<forall>client bar exc. AZURE_ENABLED st \<and> TABLE_CLIENT st = Some client \<and> ohlcv = JObj bar
          \<and> upsert_entity client
               [(''PartitionKey'', JStr symbol), (''RowKey'', JStr (row_key_of data_type date)),
                (''open'', dict_get bar ''1. buy price''), (''high'', dict_get bar ''2. high''),
                (''low'', dict_get bar ''3. low''), (''close'', dict_get bar ''4. sell price''),
                (''volume'', dict_get bar ''5. volume''), (''dataType'', JStr data_type),
                (''timestamp'', JStr (utcnow_isoformat e))] = Inl exc
        \<longrightarrow> snd (save_to_azure_table e st symbol date ohlcv data_type) = Inr False
            \<and> logged (fst (save_to_azure_table e st symbol date ohlcv data_type)) =
                logged st @ [WARNING_failed_to_save (str_exc exc)])"
proof (intro conjI allI impI)
  show "\<exists>row. snd (get_from_azure_table st symbol date data_type) = Inr row"
    by (auto simp: get_from_azure_table_def get_from_azure_table_try_def Let_def
             split: option.splits sum.splits bool.splits)
next
  fix client exc
  assume "AZURE_ENABLED st \<and> TABLE_CLIENT st = Some client
          \<and> get_entity client symbol (row_key_of data_type date) = Inl exc"
  then show "snd (get_from_azure_table st symbol date data_type) = Inr None"
    by (simp add: get_from_azure_table_def get_from_azure_table_try_def Let_def)
next
  show "\<exists>ok. snd (save_to_azure_table e st symbol date ohlcv data_type) = Inr ok"
    by (cases ohlcv)
       (auto simp: save_to_azure_table_def save_to_azure_table_try_def Let_def
             split: option.splits sum.splits bool.splits)
next
  fix client bar exc
  assume a: "AZURE_ENABLED st \<and> TABLE_CLIENT st = Some client \<and> ohlcv = JObj bar
          \<and> upsert_entity client
               [(''PartitionKey'', JStr symbol), (''RowKey'', JStr (row_key_of data_type date)),
                (''open'', dict_get bar ''1. buy price''), (''high'', dict_get bar ''2. high''),
                (''low'', dict_get bar ''3. low''), (''close'', dict_get bar ''4. sell price''),
                (''volume'', dict_get bar ''5. volume''), (''dataType'', JStr data_type),
                (''timestamp'', JStr (utcnow_isoformat e))] = Inl exc"
  then show "snd (save_to_azure_table e st symbol date ohlcv data_type) = Inr False"
    by (simp add: save_to_azure_table_def save_to_azure_table_try_def Let_def)
  from a show "logged (fst (save_to_azure_table e st symbol date ohlcv data_type)) =
                logged st @ [WARNING_failed_to_save (str_exc exc)]"
    by (simp add: save_to_azure_table_def save_to_azure_table_try_def Let_def)
qed

text \<open>A row the table does not hold, and a write the client refuses.\<close>

theorem azure_adapter_never_raises_witness:
  "snd (get_from_azure_table azure_state ''MSFT'' ''2025-10-30 14:00:00'' ''hourly'') = Inr None
   \<and> snd (save_to_azure_table example_env azure_state ''IBM'' ''2025-10-29'' bar_1029 ''daily'') = Inr False
   \<and> logged (fst (save_to_azure_table example_env azure_state ''IBM'' ''2025-10-29'' bar_1029 ''daily'')) =
       [WARNING_failed_to_save ''HttpResponseError'']"
proof -
  have en: "AZURE_ENABLED azure_state" "TABLE_CLIENT azure_state = Some example_client"
    "logged azure_state = []"
    by (simp_all add: azure_state_def initial_state_def)
  have g: "get_entity example_client ''MSFT'' (row_key_of ''hourly'' ''2025-10-30 14:00:00'') =
             Inl (OtherException ''ResourceNotFoundError'')"
    by (simp add: example_client_def)
  have u: "\<And>ent. upsert_entity example_client ent = Inl (OtherException ''HttpResponseError'')"
    by (simp add: example_client_def)
  show ?thesis
    using azure_adapter_never_raises [of azure_state "''MSFT''" "''2025-10-30 14:00:00''" "''hourly''"
            example_env bar_1029]
      azure_adapter_never_raises [of azure_state "''IBM''" "''2025-10-29''" "''daily''"
            example_env bar_1029]
    by (simp add: en g u bar_1029_def)
qed

subsection \<open>Empty series\<close>

lemma azure_fallback_calls:
  "azure_calls (fst (azure_fallback e st symbol date dt)) =
     (if AZURE_ENABLED st \<and> TABLE_CLIENT st \<noteq> None
      then azure_calls st @ [Get_entity symbol (row_key_of dt date)] else azure_calls st)"
  by (auto simp: azure_fallback_def get_from_azure_table_def get_from_azure_table_try_def Let_def
           split: option.splits sum.splits bool.splits prod.splits)




text \<open>The example files, and the index they load into.\<close>

lemma example_records:
  "all_records example_env =
     [(''IBM'', Daily, [(''2025-10-29'', bar_1029), (''2025-10-30'', bar_1030)],
         [(''1. Information'', ''Daily Prices''), (''2. Symbol'', ''IBM'')]),
      (''MSFT'', Daily, [], [(''2. Symbol'', ''MSFT'')]),
      (''IBM'', Hourly, [(''2025-10-30 14:00:00'', bar_hour)],
         [(''1. Information'', ''Intraday (60min)''), (''2. Symbol'', ''IBM'')]),
      (''IBM'', Daily, [(''2025-10-30'', bar_1030_later)],
         [(''1. Information'', ''Second source''), (''2. Symbol'', ''IBM'')])]"
  by code_simp

lemma example_index:
  "PRICE_CACHE st = [] \<Longrightarrow> \<not> CACHE_LOADED st \<Longrightarrow>
   PRICE_CACHE (ensure_cache_loaded example_env st) =
     [(''IBM'', \<lparr>daily = [(''2025-10-29'', bar_1029), (''2025-10-30'', bar_1030_later)],
                 hourly = [(''2025-10-30 14:00:00'', bar_hour)],
                 meta = [(''1. Information'', ''Daily Prices''), (''2. Symbol'', ''IBM'')]\<rparr>),
      (''MSFT'', \<lparr>daily = [], hourly = [], meta = [(''2. Symbol'', ''MSFT'')]\<rparr>)]"
  by (simp add: ensure_cache_loaded_cache example_records merge_record_def dict_update_def)


lemma example_strptime_simps:
  "strptime example_env d f = example_strptime d f"
  "get_config_value example_env ''TODAY_DATE'' = Some ''2025-10-30''"
  by (simp_all add: example_env_def)

lemma azure_state_simps:
  "PRICE_CACHE azure_state = []" "\<not> CACHE_LOADED azure_state" "AZURE_ENABLED azure_state"
  "TABLE_CLIENT azure_state = Some example_client" "azure_calls azure_state = []"
  "logged azure_state = []"
  by (simp_all add: azure_state_def initial_state_def)

lemma initial_state_simps:
  "PRICE_CACHE initial_state = []" "\<not> CACHE_LOADED initial_state" "\<not> AZURE_ENABLED initial_state"
  "TABLE_CLIENT initial_state = None" "azure_calls initial_state = []" "logged initial_state = []"
  by (simp_all add: initial_state_def)


subsection \<open>Sample of available dates\<close>

lemma sample_properties:
  fixes keys :: "string list"
  defines "sample \<equiv> take 5 (rev (sort keys))"
  shows "length sample \<le> 5" and "set sample \<subseteq> set keys" and "sorted (rev sample)"
    and "\<forall>k \<in> set keys. k \<notin> set sample \<longrightarrow> (\<forall>s \<in> set sample. k \<le> s)"
    and "keys \<noteq> [] \<Longrightarrow> sample \<noteq> []"
proof -
  let ?ys = "rev (sort keys)"
  show "length sample \<le> 5" by (simp add: sample_def)
  show "set sample \<subseteq> set keys"
    using set_take_subset [of 5 ?ys] by (simp add: sample_def)
  show "sorted (rev sample)"
    by (simp add: sample_def rev_take)
  have "sorted_wrt (\<ge>) (take 5 ?ys @ drop 5 ?ys)"
    by (simp add: sorted_wrt_rev)
  then have le: "\<forall>x \<in> set (take 5 ?ys). \<forall>y \<in> set (drop 5 ?ys). y \<le> x"
    unfolding sorted_wrt_append by blast
  show "\<forall>k \<in> set keys. k \<notin> set sample \<longrightarrow> (\<forall>s \<in> set sample. k \<le> s)"
  proof (intro ballI impI)
    fix k s
    assume k: "k \<in> set keys" and nk: "k \<notin> set sample" and s: "s \<in> set sample"
    have "set ?ys = set (take 5 ?ys) \<union> set (drop 5 ?ys)"
      by (metis append_take_drop_id set_append)
    with k nk have "k \<in> set (drop 5 ?ys)" by (auto simp: sample_def)
    with le s show "k \<le> s" by (simp add: sample_def)
  qed
  show "keys \<noteq> [] \<Longrightarrow> sample \<noteq> []" by (cases keys) (auto simp: sample_def)
qed

subsection \<open>Format validation\<close>




subsection \<open>Symbol present, key absent\<close>

text \<open>
  C3, as stated, fails when the series is empty: \<^verbatim>\<open>MSFT\<close> is in the index, the key
  is not in its daily series, and the lookup queries the table and returns the generic
  error, without sample dates.
\<close>

theorem empty_series_queries_remote_counterexample:
  "map_of (PRICE_CACHE (ensure_cache_loaded example_env azure_state)) ''MSFT'' =
     Some \<lparr>daily = [], hourly = [], meta = [(''2. Symbol'', ''MSFT'')]\<rparr>
   \<and> strptime example_env ''2025-10-29'' ''%Y-%m-%d''
   \<and> snd (get_price_local example_env azure_state ''MSFT'' ''2025-10-29'') =
       Inr (Error (Text ''No records found for stock MSFT in local data'') ''MSFT'' ''2025-10-29'')
   \<and> azure_calls azure_state = []
   \<and> azure_calls (fst (get_price_local example_env azure_state ''MSFT'' ''2025-10-29'')) =
       [Get_entity ''MSFT'' ''2025-10-29'']"
  by (simp add: get_price_local_unfold detect_def example_strptime_simps example_strptime_def
        azure_state_simps example_index ensure_cache_loaded_frame dict_get_def
        azure_fallback_def get_from_azure_table_def get_from_azure_table_try_def row_key_of_def
        example_client_def no_records_def Let_def)

text \<open>
  C3, amended.  When the symbol is in the index, its series for the detected granularity
  is not empty and does not hold the key, and the date is well-formed, the lookup returns
  the error carrying the sample \<^verbatim>\<open>sorted(keys, reverse=True)[:5]\<close> and does not call
  the table client.  The sample is not empty, has at most five keys of the series in
  descending order, and every key left out is below every key in it.
\<close>

theorem key_absent_sample_dates:
  assumes present: "map_of (PRICE_CACHE (ensure_cache_loaded e st)) symbol = Some sd"
    and absent: "date \<notin> fst ` set (series_of (detect date) sd)"
    and nonempty: "series_of (detect date) sd \<noteq> []"
    and valid: "strptime e date (format_of (detect date))"
  shows "snd (get_price_local e st symbol date) =
           Inr (Error (Data_not_found date
                         (take 5 (rev (sort (map fst (series_of (detect date) sd)))))) symbol date)
       \<and> azure_calls (fst (get_price_local e st symbol date)) = azure_calls st
       \<and> take 5 (rev (sort (map fst (series_of (detect date) sd)))) \<noteq> []
       \<and> length (take 5 (rev (sort (map fst (series_of (detect date) sd))))) \<le> 5
       \<and> set (take 5 (rev (sort (map fst (series_of (detect date) sd)))))
            \<subseteq> fst ` set (series_of (detect date) sd)
       \<and> sorted (rev (take 5 (rev (sort (map fst (series_of (detect date) sd))))))
       \<and> (\<forall>k \<in> fst ` set (series_of (detect date) sd).
            k \<notin> set (take 5 (rev (sort (map fst (series_of (detect date) sd))))) \<longrightarrow>
            (\<forall>s \<in> set (take 5 (rev (sort (map fst (series_of (detect date) sd))))). k \<le> s))"
proof -
  let ?keys = "map fst (series_of (detect date) sd)"
  let ?sample = "take 5 (rev (sort ?keys))"
  have none: "map_of (series_of (detect date) sd) date = None"
    using absent by (simp add: map_of_eq_None_iff)
  have keys: "?keys \<noteq> []" using nonempty by simp
  have ne: "?sample \<noteq> []" using sample_properties(5) [OF keys] .
  have res: "get_price_local e st symbol date =
               (ensure_cache_loaded e st, Inr (Error (Data_not_found date ?sample) symbol date))"
    using present valid none ne by (simp add: get_price_local_unfold dict_get_def)
  have p4: "\<forall>k \<in> set ?keys. k \<notin> set ?sample \<longrightarrow> (\<forall>s \<in> set ?sample. k \<le> s)"
    by (rule sample_properties(4))
  show ?thesis
    using ne sample_properties(1) [of ?keys] sample_properties(2) [of ?keys]
      sample_properties(3) [of ?keys] p4
    by (simp add: res ensure_cache_loaded_frame)
qed

text \<open>The index loaded from the crypto file.\<close>

lemma crypto_index:
  "PRICE_CACHE st = [] \<Longrightarrow> \<not> CACHE_LOADED st \<Longrightarrow>
   PRICE_CACHE (ensure_cache_loaded crypto_env st) =
     [(''BTC'', \<lparr>daily = [(''2025-10-27'', JObj [(''1. buy price'', JInt 114000)]),
                          (''2025-10-24'', JObj [(''1. buy price'', JInt 110000)]),
                          (''2025-10-29'', JObj [(''1. buy price'', JInt 112900)]),
                          (''2025-10-25'', JObj [(''1. buy price'', JInt 111000)]),
                          (''2025-10-28'', JObj [(''1. buy price'', JInt 114100)]),
                          (''2025-10-26'', JObj [(''1. buy price'', JInt 111600)])],
                 hourly = [], meta = [(''2. Symbol'', ''BTC'')]\<rparr>)]"
proof -
  have recs: "all_records crypto_env =
     [(''BTC'', Daily, [(''2025-10-27'', JObj [(''1. buy price'', JInt 114000)]),
                          (''2025-10-24'', JObj [(''1. buy price'', JInt 110000)]),
                          (''2025-10-29'', JObj [(''1. buy price'', JInt 112900)]),
                          (''2025-10-25'', JObj [(''1. buy price'', JInt 111000)]),
                          (''2025-10-28'', JObj [(''1. buy price'', JInt 114100)]),
                          (''2025-10-26'', JObj [(''1. buy price'', JInt 111600)])],
        [(''2. Symbol'', ''BTC'')])]"
    by code_simp
  assume "PRICE_CACHE st = []" "\<not> CACHE_LOADED st"
  then show ?thesis
    by (simp add: ensure_cache_loaded_cache recs merge_record_def dict_update_def)
qed

text \<open>
  A date after the last one loaded for \<^verbatim>\<open>BTC\<close>, with Azure enabled: the five latest
  of the six keys come back, latest first, the table is not queried, and the key left out
  is the earliest.
\<close>

theorem key_absent_sample_dates_witness:
  "snd (get_price_local crypto_env azure_state ''BTC'' ''2025-10-31'') =
     Inr (Error (Data_not_found ''2025-10-31''
                   [''2025-10-29'', ''2025-10-28'', ''2025-10-27'', ''2025-10-26'', ''2025-10-25''])
            ''BTC'' ''2025-10-31'')
   \<and> azure_calls (fst (get_price_local crypto_env azure_state ''BTC'' ''2025-10-31'')) = []
   \<and> ''2025-10-24'' \<le> ''2025-10-29'' \<and> ''2025-10-24'' \<le> ''2025-10-28''
   \<and> ''2025-10-24'' \<le> ''2025-10-27'' \<and> ''2025-10-24'' \<le> ''2025-10-26''
   \<and> ''2025-10-24'' \<le> ''2025-10-25''"
proof -
  let ?series = "[(''2025-10-27'', JObj [(''1. buy price'', JInt 114000)]),
                          (''2025-10-24'', JObj [(''1. buy price'', JInt 110000)]),
                          (''2025-10-29'', JObj [(''1. buy price'', JInt 112900)]),
                          (''2025-10-25'', JObj [(''1. buy price'', JInt 111000)]),
                          (''2025-10-28'', JObj [(''1. buy price'', JInt 114100)]),
                          (''2025-10-26'', JObj [(''1. buy price'', JInt 111600)])]"
  let ?sd = "\<lparr>daily = ?series, hourly = [], meta = [(''2. Symbol'', ''BTC'')]\<rparr>"
  have d: "detect ''2025-10-31'' = Daily" by (simp add: detect_def)
  have p: "map_of (PRICE_CACHE (ensure_cache_loaded crypto_env azure_state)) ''BTC'' = Some ?sd"
    by (simp add: crypto_index azure_state_simps)
  have a: "''2025-10-31'' \<notin> fst ` set (series_of (detect ''2025-10-31'') ?sd)"
    by (simp add: d)
  have n: "series_of (detect ''2025-10-31'') ?sd \<noteq> []" by (simp add: d)
  have v: "strptime crypto_env ''2025-10-31'' (format_of (detect ''2025-10-31''))"
    by (simp add: d crypto_env_def example_env_def example_strptime_def)
  have s: "take 5 (rev (sort (map fst ?series))) =
             [''2025-10-29'', ''2025-10-28'', ''2025-10-27'', ''2025-10-26'', ''2025-10-25'']"
    by code_simp
  have k: "''2025-10-24'' \<in> fst ` set (series_of (detect ''2025-10-31'') ?sd)"
    by (simp add: d)
  have nk: "''2025-10-24'' \<notin> set [''2025-10-29'', ''2025-10-28'', ''2025-10-27'', ''2025-10-26'', ''2025-10-25'']"
    by simp
  note t = key_absent_sample_dates [OF p a n v, unfolded d series_of.simps symbol_data.simps s]
  have w1: "snd (get_price_local crypto_env azure_state ''BTC'' ''2025-10-31'') =
     Inr (Error (Data_not_found ''2025-10-31''
                   [''2025-10-29'', ''2025-10-28'', ''2025-10-27'', ''2025-10-26'', ''2025-10-25''])
            ''BTC'' ''2025-10-31'')"
    using t by (rule conjunct1)
  have w2: "azure_calls (fst (get_price_local crypto_env azure_state ''BTC'' ''2025-10-31'')) = []"
    using t [THEN conjunct2, THEN conjunct1] by (simp add: azure_state_simps)
  have all: "\<forall>k \<in> fst ` set ?series.
            k \<notin> set [''2025-10-29'', ''2025-10-28'', ''2025-10-27'', ''2025-10-26'', ''2025-10-25''] \<longrightarrow>
            (\<forall>s \<in> set [''2025-10-29'', ''2025-10-28'', ''2025-10-27'', ''2025-10-26'', ''2025-10-25'']. k \<le> s)"
    using t by (elim conjE)
  have w3: "\<forall>s \<in> set [''2025-10-29'', ''2025-10-28'', ''2025-10-27'', ''2025-10-26'', ''2025-10-25''].
         ''2025-10-24'' \<le> s"
    using all k nk unfolding d series_of.simps symbol_data.simps by blast
  show ?thesis using w1 w2 w3 by simp
qed

subsection \<open>Merge order\<close>

lemma map_of_merge_record:
  "map_of (merge_record cache (s, ct, series, m)) S =
     (if S = s
      then Some (series_update ct series
                   (case map_of cache s of None \<Rightarrow> \<lparr>daily = [], hourly = [], meta = m\<rparr> | Some sd \<Rightarrow> sd))
      else map_of cache S)"
  by (simp add: merge_record_def update_conv')

lemma series_of_series_update:
  "series_of ct (series_update ct' series sd) =
     (if ct = ct' then dict_update (series_of ct sd) series else series_of ct sd)"
  by (cases ct; cases ct') simp_all

lemma meta_series_update [simp]: "meta (series_update ct series sd) = meta sd"
  by (cases ct) simp_all

lemma cache_lookup_merge_defines:
  assumes "distinct (map fst series)" and "map_of series K = Some v"
  shows "cache_lookup (merge_record c (S, ct, series, m)) S ct K = Some v"
  using assms
  by (simp add: cache_lookup_def map_of_merge_record series_of_series_update
        map_of_dict_update_distinct)

lemma cache_lookup_merge_other:
  assumes "s = S \<and> ct' = ct \<longrightarrow> K \<notin> fst ` set series"
  shows "cache_lookup (merge_record c (s, ct', series, m)) S ct K = cache_lookup c S ct K"
proof (cases "s = S")
  case False
  then show ?thesis by (simp add: cache_lookup_def map_of_merge_record)
next
  case True
  show ?thesis
  proof (cases "ct' = ct")
    case False
    with True show ?thesis
      by (cases ct; cases ct')
         (simp_all add: cache_lookup_def map_of_merge_record split: option.splits)
  next
    case same: True
    with True assms have "K \<notin> fst ` set series" by simp
    then have "map_of (dict_update d series) K = map_of d K" for d
      by (rule map_of_dict_update_absent)
    with True same show ?thesis
      by (cases ct)
         (auto simp: cache_lookup_def map_of_merge_record series_of_series_update
               split: option.splits)
  qed
qed

lemma cache_lookup_foldl_other:
  assumes "\<forall>(s, ct', series, m) \<in> set post. s = S \<and> ct' = ct \<longrightarrow> K \<notin> fst ` set series"
  shows "cache_lookup (foldl merge_record c post) S ct K = cache_lookup c S ct K"
  using assms
proof (induction post arbitrary: c)
  case Nil
  show ?case by simp
next
  case (Cons r post)
  obtain s ct' series m where r: "r = (s, ct', series, m)" by (cases r)
  from Cons.prems have here: "s = S \<and> ct' = ct \<longrightarrow> K \<notin> fst ` set series"
    and rest: "\<forall>(s, ct', series, m) \<in> set post. s = S \<and> ct' = ct \<longrightarrow> K \<notin> fst ` set series"
    by (simp_all add: r)
  show ?case
    by (simp add: r Cons.IH [OF rest] cache_lookup_merge_other [OF here])
qed

lemma cache_lookup_last_writer:
  assumes "distinct (map fst series)" and "map_of series K = Some v"
    and "\<forall>(s, ct', series', m') \<in> set post. s = S \<and> ct' = ct \<longrightarrow> K \<notin> fst ` set series'"
  shows "cache_lookup (foldl merge_record c (pre @ (S, ct, series, m) # post)) S ct K = Some v"
  using assms
  by (simp add: cache_lookup_foldl_other cache_lookup_merge_defines)

lemma meta_merge_record:
  "map_option meta (map_of (merge_record c (s, ct, series, m)) S) =
     (if S = s
      then (case map_option meta (map_of c S) of None \<Rightarrow> Some m | Some m0 \<Rightarrow> Some m0)
      else map_option meta (map_of c S))"
  by (simp add: map_of_merge_record split: option.splits)

lemma meta_foldl_kept:
  "map_option meta (map_of c S) = Some m0 \<Longrightarrow>
   map_option meta (map_of (foldl merge_record c rs) S) = Some m0"
proof (induction rs arbitrary: c)
  case Nil
  then show ?case by simp
next
  case (Cons r rs)
  obtain s ct series m where r: "r = (s, ct, series, m)" by (cases r)
  have "map_option meta (map_of (merge_record c r) S) = Some m0"
    using Cons.prems by (auto simp: r meta_merge_record)
  then show ?case using Cons.IH by simp
qed

lemma meta_foldl_absent:
  "map_of c S = None \<Longrightarrow> \<forall>r \<in> set rs. fst r \<noteq> S \<Longrightarrow> map_of (foldl merge_record c rs) S = None"
proof (induction rs arbitrary: c)
  case Nil
  then show ?case by simp
next
  case (Cons r rs)
  obtain s ct series m where r: "r = (s, ct, series, m)" by (cases r)
  have "map_of (merge_record c r) S = None"
    using Cons.prems by (auto simp: r map_of_merge_record)
  then show ?case using Cons.IH Cons.prems by simp
qed

lemma meta_first_encounter:
  assumes "map_of c S = None" and "\<forall>r \<in> set pre. fst r \<noteq> S"
  shows "map_option meta (map_of (foldl merge_record c (pre @ (S, ct, series, m) # post)) S) = Some m"
proof -
  have "map_of (foldl merge_record c pre) S = None"
    using assms by (rule meta_foldl_absent)
  then have "map_option meta (map_of (merge_record (foldl merge_record c pre) (S, ct, series, m)) S) = Some m"
    by (simp add: meta_merge_record)
  then show ?thesis by (simp add: meta_foldl_kept)
qed

text \<open>
  C7.  Loading starts from an index that does not know the symbol.  Among the records the
  five sources contribute, in load order, take the first one for the symbol and the last
  one that defines the key in the series of a given granularity (two sources defining
  the same key are the case where another record of the symbol defines it earlier).
  After loading, the index holds the value of that last record under the key, and the
  symbol's metadata is the metadata of the first record.
\<close>

theorem merge_last_writer_wins:
  assumes unloaded: "\<not> CACHE_LOADED st"
    and fresh: "map_of (PRICE_CACHE st) symbol = None"
    and first: "all_records e = pre0 @ (symbol, ct0, series0, m0) # post0"
    and unseen: "\<forall>r \<in> set pre0. fst r \<noteq> symbol"
    and last: "all_records e = pre @ (symbol, ct, series, m) # post"
    and dict: "distinct (map fst series)"
    and defined: "map_of series key = Some v"
    and final: "\<forall>(s', ct', series', m') \<in> set post. s' = symbol \<and> ct' = ct \<longrightarrow> key \<notin> fst ` set series'"
  shows "cache_lookup (PRICE_CACHE (ensure_cache_loaded e st)) symbol ct key = Some v
       \<and> map_option meta (map_of (PRICE_CACHE (ensure_cache_loaded e st)) symbol) = Some m0"
proof
  show "cache_lookup (PRICE_CACHE (ensure_cache_loaded e st)) symbol ct key = Some v"
    by (simp only: ensure_cache_loaded_cache [OF unloaded] last
          cache_lookup_last_writer [OF dict defined final])
  show "map_option meta (map_of (PRICE_CACHE (ensure_cache_loaded e st)) symbol) = Some m0"
    by (simp only: ensure_cache_loaded_cache [OF unloaded] first
          meta_first_encounter [OF fresh unseen])
qed

text \<open>
  \<^verbatim>\<open>IBM\<close> on \<^verbatim>\<open>2025-10-30\<close> is defined by \<^verbatim>\<open>data/merged.jsonl\<close> and again, with
  another close, by \<^verbatim>\<open>data/A_stock/merged.jsonl\<close>: the index holds the second bar and the
  metadata of the first file.
\<close>

theorem merge_last_writer_wins_witness:
  "cache_lookup (PRICE_CACHE (ensure_cache_loaded example_env initial_state)) ''IBM'' Daily ''2025-10-30'' =
     Some bar_1030_later
   \<and> map_option meta (map_of (PRICE_CACHE (ensure_cache_loaded example_env initial_state)) ''IBM'') =
     Some [(''1. Information'', ''Daily Prices''), (''2. Symbol'', ''IBM'')]"
proof -
  let ?r1 = "(''IBM'', Daily, [(''2025-10-29'', bar_1029), (''2025-10-30'', bar_1030)],
               [(''1. Information'', ''Daily Prices''), (''2. Symbol'', ''IBM'')])"
  let ?r2 = "(''MSFT'', Daily, [], [(''2. Symbol'', ''MSFT'')])"
  let ?r3 = "(''IBM'', Hourly, [(''2025-10-30 14:00:00'', bar_hour)],
               [(''1. Information'', ''Intraday (60min)''), (''2. Symbol'', ''IBM'')])"
  have first: "all_records example_env = [] @ ?r1 #
      [?r2, ?r3, (''IBM'', Daily, [(''2025-10-30'', bar_1030_later)],
                   [(''1. Information'', ''Second source''), (''2. Symbol'', ''IBM'')])]"
    by (simp add: example_records)
  have last: "all_records example_env = [?r1, ?r2, ?r3] @
      (''IBM'', Daily, [(''2025-10-30'', bar_1030_later)],
         [(''1. Information'', ''Second source''), (''2. Symbol'', ''IBM'')]) # []"
    by (simp add: example_records)
  show ?thesis
    by (rule merge_last_writer_wins [OF _ _ first _ last]) (simp_all add: initial_state_simps)
qed

subsection \<open>Lookup of a loaded bar\<close>

text \<open>
  C1, as stated, fails for the configured current date: the index holds the bar of
  \<^verbatim>\<open>IBM\<close> for \<^verbatim>\<open>2025-10-30\<close>, and the lookup returns its open with placeholders for
  the other four fields.
\<close>

theorem today_bar_redacted_counterexample:
  "cache_lookup (PRICE_CACHE (ensure_cache_loaded example_env initial_state)) ''IBM'' Daily ''2025-10-30'' =
     Some (JObj [(''1. buy price'', JStr ''274.50''), (''2. high'', JStr ''279.00''),
                 (''3. low'', JStr ''273.10''), (''4. sell price'', JStr ''278.95''),
                 (''5. volume'', JNull)])
   \<and> snd (get_price_local example_env initial_state ''IBM'' ''2025-10-30'') =
       Inr (Price ''IBM'' ''2025-10-30''
              \<lparr>open' = JStr ''274.50'',
               high = JStr ''You can not get the current high price'',
               low = JStr ''You can not get the current low price'',
               close = JStr ''You can not get the next close price'',
               volume = JStr ''You can not get the current volume''\<rparr>)"
  by (simp add: get_price_local_unfold detect_def example_strptime_simps example_strptime_def
        initial_state_simps example_index cache_lookup_def dict_get_def bar_1030_later_def
        format_ohlcv_response_def is_today_date_def)

text \<open>
  A stored bar is returned when it is a non-empty object and the date is well-formed.  A
  stored value that is falsy (\<^verbatim>\<open>{}\<close>, \<^verbatim>\<open>null\<close>, ...) is treated as a missing key.
\<close>

lemma stored_bar_returned:
  assumes stored: "cache_lookup (PRICE_CACHE (ensure_cache_loaded e st)) symbol (detect date) date = Some (JObj bar)"
    and truthy: "bar \<noteq> []"
    and valid: "strptime e date (format_of (detect date))"
  shows "get_price_local e st symbol date =
           (ensure_cache_loaded e st,
            format_ohlcv_response symbol date (JObj bar) (is_today_date e date))"
  using assms
  by (auto simp: get_price_local_unfold cache_lookup_def dict_get_def split: option.splits)

lemma falsy_bar_not_returned:
  assumes stored: "cache_lookup (PRICE_CACHE (ensure_cache_loaded e st)) symbol (detect date) date = Some v"
    and falsy: "\<not> truthy v"
    and valid: "strptime e date (format_of (detect date))"
  shows "\<exists>sample. sample \<noteq> []
           \<and> snd (get_price_local e st symbol date) = Inr (Error (Data_not_found date sample) symbol date)"
proof -
  obtain sd where sd: "map_of (PRICE_CACHE (ensure_cache_loaded e st)) symbol = Some sd"
    and v: "map_of (series_of (detect date) sd) date = Some v"
    using stored by (auto simp: cache_lookup_def split: option.splits)
  from v have mem: "date \<in> fst ` set (series_of (detect date) sd)"
    by (metis map_of_eq_None_iff option.distinct(1))
  then have "map fst (series_of (detect date) sd) \<noteq> []" by auto
  then have "take 5 (rev (sort (map fst (series_of (detect date) sd)))) \<noteq> []"
    by (rule sample_properties(5))
  then show ?thesis
    using sd v falsy valid mem by (simp add: get_price_local_unfold dict_get_def)
qed

text \<open>
  C1, amended.  Take a key that the loader inserts for a symbol, with the last record
  that defines it, in load order, under the granularity the key is detected as.  If the
  bar of that record is a non-empty object and the key is a well-formed date, the lookup
  after loading succeeds with the bar's open; high, low, close and volume are the bar's
  fields when the key is not the configured current date, and the placeholders when it is.
\<close>

theorem lookup_returns_last_merged_bar:
  assumes unloaded: "\<not> CACHE_LOADED st"
    and last: "all_records e = pre @ (symbol, detect date, series, m) # post"
    and dict: "distinct (map fst series)"
    and defined: "map_of series date = Some (JObj bar)"
    and final: "\<forall>(s', ct', series', m') \<in> set post.
                  s' = symbol \<and> ct' = detect date \<longrightarrow> date \<notin> fst ` set series'"
    and truthy: "bar \<noteq> []"
    and valid: "strptime e date (format_of (detect date))"
  shows "snd (get_price_local e st symbol date) =
           Inr (Price symbol date
                  (if get_config_value e ''TODAY_DATE'' = Some date
                   then \<lparr>open' = dict_get bar ''1. buy price'',
                         high = JStr ''You can not get the current high price'',
                         low = JStr ''You can not get the current low price'',
                         close = JStr ''You can not get the next close price'',
                         volume = JStr ''You can not get the current volume''\<rparr>
                   else \<lparr>open' = dict_get bar ''1. buy price'',
                         high = dict_get bar ''2. high'',
                         low = dict_get bar ''3. low'',
                         close = dict_get bar ''4. sell price'',
                         volume = dict_get bar ''5. volume''\<rparr>))"
proof -
  have "cache_lookup (PRICE_CACHE (ensure_cache_loaded e st)) symbol (detect date) date = Some (JObj bar)"
    by (simp only: ensure_cache_loaded_cache [OF unloaded] last
          cache_lookup_last_writer [OF dict defined final])
  then have "get_price_local e st symbol date =
           (ensure_cache_loaded e st,
            format_ohlcv_response symbol date (JObj bar) (is_today_date e date))"
    using truthy valid by (rule stored_bar_returned)
  then show ?thesis
    by (simp add: format_ohlcv_response_def is_today_date_def)
qed

text \<open>A bar of a past day comes back with its five fields.\<close>

theorem lookup_returns_last_merged_bar_witness:
  "snd (get_price_local example_env initial_state ''IBM'' ''2025-10-29'') =
     Inr (Price ''IBM'' ''2025-10-29''
            \<lparr>open' = JStr ''270.00'', high = JStr ''275.10'', low = JStr ''268.50'',
             close = JStr ''274.20'', volume = JStr ''3100000''\<rparr>)"
proof -
  let ?bar = "[(''1. buy price'', JStr ''270.00''), (''2. high'', JStr ''275.10''),
               (''3. low'', JStr ''268.50''), (''4. sell price'', JStr ''274.20''),
               (''5. volume'', JStr ''3100000'')]"
  let ?post = "[(''MSFT'', Daily, [], [(''2. Symbol'', ''MSFT'')]),
       (''IBM'', Hourly, [(''2025-10-30 14:00:00'', bar_hour)],
          [(''1. Information'', ''Intraday (60min)''), (''2. Symbol'', ''IBM'')]),
       (''IBM'', Daily, [(''2025-10-30'', bar_1030_later)],
          [(''1. Information'', ''Second source''), (''2. Symbol'', ''IBM'')])]"
  have d: "detect ''2025-10-29'' = Daily" by (simp add: detect_def)
  have last: "all_records example_env =
     [] @ (''IBM'', detect ''2025-10-29'', [(''2025-10-29'', bar_1029), (''2025-10-30'', bar_1030)],
             [(''1. Information'', ''Daily Prices''), (''2. Symbol'', ''IBM'')]) # ?post"
    by (simp add: example_records d)
  have u: "\<not> CACHE_LOADED initial_state" by (simp add: initial_state_simps)
  have dict: "distinct (map fst [(''2025-10-29'', bar_1029), (''2025-10-30'', bar_1030)])" by simp
  have defined: "map_of [(''2025-10-29'', bar_1029), (''2025-10-30'', bar_1030)] ''2025-10-29'' = Some (JObj ?bar)"
    by (simp add: bar_1029_def)
  have final: "\<forall>(s', ct', series', m') \<in> set ?post.
                  s' = ''IBM'' \<and> ct' = detect ''2025-10-29'' \<longrightarrow> ''2025-10-29'' \<notin> fst ` set series'"
    by (simp add: d)
  have truthy: "?bar \<noteq> []" by simp
  have valid: "strptime example_env ''2025-10-29'' (format_of (detect ''2025-10-29''))"
    by (simp add: d example_strptime_simps example_strptime_def)
  show ?thesis
    using lookup_returns_last_merged_bar [OF u last dict defined final truthy valid]
    by (simp add: example_strptime_simps dict_get_def)
qed

subsection \<open>Tolerance of the loader and its count\<close>








end
